theory Spec2Isabelle
  imports
    Main
    "HOL-Library.Word"
    "HOL-Library.Char_ord"
    "HOL-Library.List_Lexorder"
    "HOL-Library.AList"
    "HOL-Library.Multiset"
begin

unbundle bit_operations_syntax

section \<open>gcredstash: the driver (driver.go) as a shallow embedding\<close>

text \<open>
  The driver stores secrets in a DynamoDB table keyed by (name, version) and seals each
  secret with a one-time data key minted by KMS. This theory embeds the functions of
  \<^verbatim>\<open>driver.go\<close> one by one and proves the properties stated for them.

  What the driver calls but does not define is modelled as follows.
  \<^item> Go's \<^verbatim>\<open>encoding/hex\<close>, \<^verbatim>\<open>encoding/base64\<close> (StdEncoding), \<^verbatim>\<open>strconv.Atoi\<close>,
    \<^verbatim>\<open>strings.Contains\<close>, the \<^verbatim>\<open>%d\<close> verb and CTR mode are written out as functions.
  \<^item> HMAC-SHA256, the AES block function and the two KMS calls are parameters, gathered
    in the record \<open>env\<close>: every theorem holds for all of them.
  \<^item> DynamoDB is a state: named tables of items, and a script of outcomes for the calls
    to come, so that a call can fail with a service error at any point.
\<close>

subsection \<open>Bytes, strings, errors, results\<close>

type_synonym byte = "8 word"
type_synonym bytes = "byte list"

definition byte_of_char :: "char \<Rightarrow> byte" where
  "byte_of_char c = of_nat (of_char c)"

definition char_of_byte :: "byte \<Rightarrow> char" where
  "char_of_byte b = char_of (unat b)"

text \<open>The conversions \<^verbatim>\<open>[]byte(s)\<close> and \<^verbatim>\<open>string(b)\<close>.\<close>

definition bytes_of_string :: "string \<Rightarrow> bytes" where
  "bytes_of_string s = map byte_of_char s"

definition string_of_bytes :: "bytes \<Rightarrow> string" where
  "string_of_bytes b = map char_of_byte b"

text \<open>
  Go's \<^verbatim>\<open>error\<close> values met in the driver: \<^verbatim>\<open>fmt.Errorf\<close> results, errors of the AWS SDK
  (code and message), the decoding errors of \<^verbatim>\<open>encoding/hex\<close> and \<^verbatim>\<open>encoding/base64\<close>,
  \<^verbatim>\<open>strconv.NumError\<close> (input and reason), \<^verbatim>\<open>aes.KeySizeError\<close> and the run-time errors
  behind a nil dereference or a slice out of range. The byte offset that Go's
  \<^verbatim>\<open>base64.CorruptInputError\<close> carries is left out.
\<close>

datatype error =
    ErrorString string
  | AwsError string string
  | InvalidByteError char
  | ErrLength
  | CorruptInputError
  | NumError string string
  | KeySizeError nat
  | RuntimeError string

text \<open>
  \<^verbatim>\<open>err.Error()\<close>. The driver calls it on service errors only (lines 132 and 376), for
  which the SDK prints the code, a colon and the message; the SDK's trailing status line
  is left out. The texts of the library errors are shortened.
\<close>

fun err_Error :: "error \<Rightarrow> string" where
  "err_Error (ErrorString s) = s"
| "err_Error (AwsError code message) = code @ '': '' @ message"
| "err_Error (InvalidByteError c) = ''encoding/hex: invalid byte: '' @ [c]"
| "err_Error ErrLength = ''encoding/hex: odd length hex string''"
| "err_Error CorruptInputError = ''illegal base64 data''"
| "err_Error (NumError num reason) = ''strconv.Atoi: parsing '' @ num @ '': '' @ reason"
| "err_Error (KeySizeError n) = ''crypto/aes: invalid key size''"
| "err_Error (RuntimeError s) = ''runtime error: '' @ s"

text \<open>
  The outcome of a driver function: a value, a returned error (the value returned beside
  it, \<^verbatim>\<open>nil\<close>, \<^verbatim>\<open>""\<close> or \<^verbatim>\<open>-1\<close>, is dropped), or a panic. Nothing in the driver recovers
  a panic.
\<close>

datatype 'a result = Ok 'a | Err error | Panic error

definition nil_dereference :: error where
  "nil_dereference = RuntimeError ''invalid memory address or nil pointer dereference''"

definition slice_out_of_range :: error where
  "slice_out_of_range = RuntimeError ''slice bounds out of range''"

subsection \<open>Library functions\<close>

text \<open>\<^verbatim>\<open>strings.Contains(s, substr)\<close>.\<close>

primrec Contains :: "string \<Rightarrow> string \<Rightarrow> bool" where
  "Contains [] substr = (substr = [])"
| "Contains (c # s) substr = (take (length substr) (c # s) = substr \<or> Contains s substr)"

text \<open>\<^verbatim>\<open>hex.EncodeToString\<close> and \<^verbatim>\<open>hex.DecodeString\<close>.\<close>

definition hextable :: string where
  "hextable = ''0123456789abcdef''"

definition hex_EncodeToString :: "bytes \<Rightarrow> string" where
  "hex_EncodeToString src =
     concat (map (\<lambda>v. [hextable ! unat (drop_bit 4 v), hextable ! unat (v AND 0x0f)]) src)"

definition fromHexChar :: "char \<Rightarrow> byte option" where
  "fromHexChar ch =
     (let c = byte_of_char ch in
      if 0x30 \<le> c \<and> c \<le> 0x39 then Some (c - 0x30)
      else if 0x61 \<le> c \<and> c \<le> 0x66 then Some (c - 0x61 + 10)
      else if 0x41 \<le> c \<and> c \<le> 0x46 then Some (c - 0x41 + 10)
      else None)"

fun hex_DecodeString :: "string \<Rightarrow> error + bytes" where
  "hex_DecodeString [] = Inr []"
| "hex_DecodeString [c] =
     (case fromHexChar c of None \<Rightarrow> Inl (InvalidByteError c) | Some _ \<Rightarrow> Inl ErrLength)"
| "hex_DecodeString (p # q # src) =
     (case fromHexChar p of
        None \<Rightarrow> Inl (InvalidByteError p)
      | Some a \<Rightarrow>
          (case fromHexChar q of
             None \<Rightarrow> Inl (InvalidByteError q)
           | Some b \<Rightarrow>
               (case hex_DecodeString src of
                  Inl e \<Rightarrow> Inl e
                | Inr dst \<Rightarrow> Inr ((push_bit 4 a OR b) # dst))))"

text \<open>
  \<^verbatim>\<open>base64.StdEncoding\<close>: the RFC 4648 alphabet, padded with \<^verbatim>\<open>=\<close>. The encoder packs
  three bytes into a 24-bit value and reads four sextets off it. The decoder skips
  carriage returns and line feeds, wants whole quanta of four characters, accepts
  padding in the last quantum only, and (not being strict) ignores the unused low bits
  of a padded quantum.
\<close>

definition encodeStd :: string where
  "encodeStd = ''ABCDEFGHIJKLMNOPQRSTUVWXYZabcdefghijklmnopqrstuvwxyz0123456789+/''"

definition sextet :: "64 word \<Rightarrow> nat \<Rightarrow> char" where
  "sextet val sh = encodeStd ! unat (drop_bit sh val AND 0x3F)"

fun base64_EncodeToString :: "bytes \<Rightarrow> string" where
  "base64_EncodeToString [] = []"
| "base64_EncodeToString [a] =
     (let val = push_bit 16 (ucast a) :: 64 word
      in [sextet val 18, sextet val 12, CHR ''='', CHR ''=''])"
| "base64_EncodeToString [a, b] =
     (let val = push_bit 16 (ucast a) OR push_bit 8 (ucast b) :: 64 word
      in [sextet val 18, sextet val 12, sextet val 6, CHR ''=''])"
| "base64_EncodeToString (a # b # c # src) =
     (let val = push_bit 16 (ucast a) OR push_bit 8 (ucast b) OR ucast c :: 64 word
      in [sextet val 18, sextet val 12, sextet val 6, sextet val 0] @ base64_EncodeToString src)"

definition decodeMap :: "char \<Rightarrow> byte option" where
  "decodeMap = map_of (zip encodeStd (map of_nat [0..<64]))"

definition assemble :: "byte \<Rightarrow> byte \<Rightarrow> byte \<Rightarrow> byte \<Rightarrow> 64 word" where
  "assemble d0 d1 d2 d3 =
     push_bit 18 (ucast d0) OR push_bit 12 (ucast d1) OR push_bit 6 (ucast d2) OR ucast d3"

fun decodeQuanta :: "string \<Rightarrow> error + bytes" where
  "decodeQuanta [] = Inr []"
| "decodeQuanta (c0 # c1 # c2 # c3 # src) =
     (case (decodeMap c0, decodeMap c1) of
        (Some d0, Some d1) \<Rightarrow>
          (case decodeMap c2 of
             Some d2 \<Rightarrow>
               (case decodeMap c3 of
                  Some d3 \<Rightarrow>
                    (let val = assemble d0 d1 d2 d3 in
                     case decodeQuanta src of
                       Inl e \<Rightarrow> Inl e
                     | Inr dst \<Rightarrow>
                         Inr (ucast (drop_bit 16 val) # ucast (drop_bit 8 val) # ucast val # dst))
                | None \<Rightarrow>
                    if c3 = CHR ''='' \<and> src = [] then
                      (let val = assemble d0 d1 d2 0 in
                       Inr [ucast (drop_bit 16 val), ucast (drop_bit 8 val)])
                    else Inl CorruptInputError)
           | None \<Rightarrow>
               if c2 = CHR ''='' \<and> c3 = CHR ''='' \<and> src = [] then
                 (let val = assemble d0 d1 0 0 in Inr [ucast (drop_bit 16 val)])
               else Inl CorruptInputError)
      | _ \<Rightarrow> Inl CorruptInputError)"
| "decodeQuanta _ = Inl CorruptInputError"

definition base64_DecodeString :: "string \<Rightarrow> error + bytes" where
  "base64_DecodeString s = decodeQuanta (filter (\<lambda>c. c \<noteq> CHR 0x0A \<and> c \<noteq> CHR 0x0D) s)"

text \<open>
  \<^verbatim>\<open>strconv.Atoi\<close>: an optional sign, then decimal digits only; the value must fit
  Go's 64-bit \<^verbatim>\<open>int\<close>. A digit test is Go's \<^verbatim>\<open>ch -= '0'; ch > 9\<close> on bytes.
\<close>

definition Atoi :: "string \<Rightarrow> error + int" where
  "Atoi s =
     (case s of
        [] \<Rightarrow> Inl (NumError s ''invalid syntax'')
      | c # r \<Rightarrow>
          (let digits = (if c = CHR ''-'' \<or> c = CHR ''+'' then r else s) in
           if digits = [] \<or> list_ex (\<lambda>ch. 9 < byte_of_char ch - 0x30) digits
           then Inl (NumError s ''invalid syntax'')
           else
             (let n = foldl (\<lambda>n ch. n * 10 + uint (byte_of_char ch - 0x30)) 0 digits;
                  v = (if c = CHR ''-'' then - n else n)
              in if v < - (2 ^ 63) \<or> 2 ^ 63 - 1 < v
                 then Inl (NumError s ''value out of range'')
                 else Inr v)))"

text \<open>The verb \<^verbatim>\<open>%d\<close> of \<^verbatim>\<open>fmt\<close> on an \<^verbatim>\<open>int\<close>.\<close>

fun decimal :: "nat \<Rightarrow> string" where
  "decimal n =
     (if n < 10 then [char_of (48 + n)]
      else decimal (n div 10) @ [char_of (48 + n mod 10)])"

declare decimal.simps [simp del]

definition Sprint_d :: "int \<Rightarrow> string" where
  "Sprint_d i = (if i < 0 then CHR ''-'' # decimal (nat (- i)) else decimal (nat i))"

subsection \<open>The parameters: HMAC-SHA256, AES and KMS\<close>

text \<open>
  \<open>hmac_sha256 key message\<close> is \<^verbatim>\<open>hmac.New(sha256.New, key)\<close> written to and summed;
  \<open>aes_Encrypt key block\<close> is the block function of \<^verbatim>\<open>aes.NewCipher(key)\<close> on one
  128-bit block, read big-endian. \<open>kms_GenerateDataKey keyId n ctx\<close> answers with the
  plaintext key and its wrapped form, \<open>kms_Decrypt blob ctx\<close> with the plaintext key;
  both may fail. An encryption context, a Go map from strings to strings, is the list
  of its entries; the context of a request is \<open>None\<close> when the driver leaves the field
  unset.
\<close>

type_synonym enc_context = "(string \<times> string) list"

record env =
  hmac_sha256 :: "bytes \<Rightarrow> bytes \<Rightarrow> bytes"
  aes_Encrypt :: "bytes \<Rightarrow> 128 word \<Rightarrow> 128 word"
  kms_GenerateDataKey :: "string \<Rightarrow> nat \<Rightarrow> enc_context option \<Rightarrow> error + (bytes \<times> bytes)"
  kms_Decrypt :: "bytes \<Rightarrow> enc_context option \<Rightarrow> error + bytes"

text \<open>
  \<^verbatim>\<open>cipher.NewCTR(block, iv)\<close> and \<^verbatim>\<open>XORKeyStream\<close>: the key stream is the encryption of
  the counter blocks \<open>iv\<close>, \<open>iv + 1\<close>, ... (a 128-bit big-endian counter that wraps).
\<close>

definition block_bytes :: "128 word \<Rightarrow> bytes" where
  "block_bytes x = map (\<lambda>i. ucast (drop_bit (8 * (15 - i)) x)) [0..<16]"

fun keystream :: "(128 word \<Rightarrow> 128 word) \<Rightarrow> 128 word \<Rightarrow> nat \<Rightarrow> bytes" where
  "keystream block ctr n =
     (if n = 0 then []
      else take n (block_bytes (block ctr)) @ keystream block (ctr + 1) (n - 16))"

declare keystream.simps [simp del]

definition XORKeyStream :: "(128 word \<Rightarrow> 128 word) \<Rightarrow> 128 word \<Rightarrow> bytes \<Rightarrow> bytes" where
  "XORKeyStream block iv src = map2 (XOR) src (keystream block iv (length src))"

subsection \<open>DynamoDB\<close>

text \<open>
  An item is modelled by its string-valued attributes (the \<^verbatim>\<open>S\<close> field of an
  \<^verbatim>\<open>AttributeValue\<close>); an attribute that is absent, or not a string, reads as \<open>None\<close>,
  Go's \<^verbatim>\<open>nil\<close>. A table with hash key \<^verbatim>\<open>name\<close> and range key \<^verbatim>\<open>version\<close> is a list of
  entries, each the key and the stored attributes. The service state holds the tables
  by name, the outcomes scripted for the next calls (\<open>None\<close>: the call is served,
  \<open>Some e\<close>: it fails with \<open>e\<close> and changes nothing; an empty script serves every call),
  and what the driver has printed.
\<close>

type_synonym item = "string \<rightharpoonup> string"
type_synonym table = "((string \<times> string) \<times> item) list"

record world =
  tables :: "string \<rightharpoonup> table"
  outages :: "error option list"
  stdout :: "string list"

definition serve :: "world \<Rightarrow> error option \<times> world" where
  "serve w = (case outages w of [] \<Rightarrow> (None, w) | out # rest \<Rightarrow> (out, w\<lparr>outages := rest\<rparr>))"

definition ResourceNotFoundException :: error where
  "ResourceNotFoundException = AwsError ''ResourceNotFoundException'' ''Requested resource not found''"

definition ConditionalCheckFailedException :: error where
  "ConditionalCheckFailedException =
     AwsError ''ConditionalCheckFailedException'' ''The conditional request failed''"

definition ValidationException :: error where
  "ValidationException =
     AwsError ''ValidationException'' ''One or more parameter values were invalid''"

text \<open>The item an entry stands for: its attributes, with the two key attributes.\<close>

definition item_at :: "(string \<times> string) \<times> item \<Rightarrow> item" where
  "item_at e = (snd e)(''name'' \<mapsto> fst (fst e), ''version'' \<mapsto> snd (fst e))"

definition project :: "string list option \<Rightarrow> item \<Rightarrow> item" where
  "project projection i = (case projection of None \<Rightarrow> i | Some attrs \<Rightarrow> i |` set attrs)"

text \<open>
  \<^verbatim>\<open>Query\<close> with the key condition \<^verbatim>\<open>name = :name\<close>: the items of the partition in the
  order of the range key, which for strings is the order of their bytes; descending
  when \<^verbatim>\<open>ScanIndexForward\<close> is false; at most \<^verbatim>\<open>Limit\<close> of them. The state is a single
  copy, so \<^verbatim>\<open>ConsistentRead\<close> changes nothing. The response is the list \<^verbatim>\<open>Items\<close>;
  \<^verbatim>\<open>Count\<close> is its length.
\<close>

definition ddb_Query ::
    "string \<Rightarrow> string \<Rightarrow> nat \<Rightarrow> bool \<Rightarrow> bool \<Rightarrow> string list option \<Rightarrow> world
      \<Rightarrow> (error + item list) \<times> world" where
  "ddb_Query TableName name Limit ConsistentRead ScanIndexForward ProjectionExpression w =
     (case serve w of
        (Some e, w') \<Rightarrow> (Inl e, w')
      | (None, w') \<Rightarrow>
          (case tables w' TableName of
             None \<Rightarrow> (Inl ResourceNotFoundException, w')
           | Some tb \<Rightarrow>
               (let partition = sort_key (\<lambda>e. snd (fst e)) (filter (\<lambda>e. fst (fst e) = name) tb);
                    ordered = (if ScanIndexForward then partition else rev partition)
                in (Inr (map (\<lambda>e. project ProjectionExpression (item_at e)) (take Limit ordered)),
                    w'))))"

definition ddb_GetItem ::
    "string \<Rightarrow> string \<Rightarrow> string \<Rightarrow> world \<Rightarrow> (error + item option) \<times> world" where
  "ddb_GetItem TableName name version w =
     (case serve w of
        (Some e, w') \<Rightarrow> (Inl e, w')
      | (None, w') \<Rightarrow>
          (case tables w' TableName of
             None \<Rightarrow> (Inl ResourceNotFoundException, w')
           | Some tb \<Rightarrow>
               (case map_of tb (name, version) of
                  None \<Rightarrow> (Inr None, w')
                | Some attrs \<Rightarrow> (Inr (Some (item_at ((name, version), attrs))), w'))))"


text \<open>
  \<^verbatim>\<open>PutItem\<close>, with the condition \<^verbatim>\<open>attribute_not_exists(name)\<close> when \<open>IfAbsent\<close> is set:
  the condition is evaluated on the stored item with the same key. The service refuses
  an item whose key attributes are missing or empty.
\<close>

definition ddb_PutItem :: "string \<Rightarrow> item \<Rightarrow> bool \<Rightarrow> world \<Rightarrow> error option \<times> world" where
  "ddb_PutItem TableName Item IfAbsent w =
     (case serve w of
        (Some e, w') \<Rightarrow> (Some e, w')
      | (None, w') \<Rightarrow>
          (case tables w' TableName of
             None \<Rightarrow> (Some ResourceNotFoundException, w')
           | Some tb \<Rightarrow>
               (case (Item ''name'', Item ''version'') of
                  (Some name, Some version) \<Rightarrow>
                    if name = [] \<or> version = [] then (Some ValidationException, w')
                    else if IfAbsent \<and> map_of tb (name, version) \<noteq> None
                    then (Some ConditionalCheckFailedException, w')
                    else (None, w'\<lparr>tables := (tables w')(TableName \<mapsto>
                                    AList.update (name, version) Item tb)\<rparr>)
                | _ \<Rightarrow> (Some ValidationException, w'))))"


subsection \<open>The driver\<close>

text \<open>\<^verbatim>\<open>getMaterial\<close> (lines 19-71).\<close>

definition not_found :: "string \<Rightarrow> error" where
  "not_found name =
     ErrorString (''Item {'name': '' @ CHR 0x27 # name @ CHR 0x27 # ''} couldn't be found.'')"

definition getMaterial :: "string \<Rightarrow> string \<Rightarrow> string \<Rightarrow> world \<Rightarrow> item result \<times> world" where
  "getMaterial name version table w =
     (if version = [] then
        (case ddb_Query table name 1 True False None w of
           (Inl err, w') \<Rightarrow> (Err err, w')
         | (Inr Items, w') \<Rightarrow>
             (case Items of
                [] \<Rightarrow> (Err (not_found name), w')
              | material # _ \<Rightarrow> (Ok material, w')))
      else
        (case ddb_GetItem table name version w of
           (Inl err, w') \<Rightarrow> (Err err, w')
         | (Inr None, w') \<Rightarrow> (Err (not_found name), w')
         | (Inr (Some material), w') \<Rightarrow> (Ok material, w')))"

text \<open>\<^verbatim>\<open>doHmac\<close> (lines 73-77) and \<^verbatim>\<open>checkMAC\<close> (lines 79-88); \<^verbatim>\<open>hmac.Equal\<close> is equality.\<close>

definition doHmac :: "env \<Rightarrow> bytes \<Rightarrow> bytes \<Rightarrow> bytes" where
  "doHmac env message key = hmac_sha256 env key message"

definition checkMAC :: "env \<Rightarrow> bytes \<Rightarrow> string option \<Rightarrow> bytes \<Rightarrow> bool result" where
  "checkMAC env message hmacStr key =
     (let expectedMAC = doHmac env message key in
      case hmacStr of
        None \<Rightarrow> Panic nil_dereference
      | Some str \<Rightarrow>
          (case hex_DecodeString str of
             Inl err \<Rightarrow> Panic err
           | Inr messageMAC \<Rightarrow> Ok (messageMAC = expectedMAC)))"

text \<open>
  \<^verbatim>\<open>cryptAES\<close> (lines 90-104). \<^verbatim>\<open>aes.NewCipher\<close> accepts keys of 16, 24 or 32 bytes; the
  initialisation vector is fifteen zero bytes and a one.
\<close>

definition cryptAES :: "env \<Rightarrow> bytes \<Rightarrow> bytes \<Rightarrow> bytes result" where
  "cryptAES env contents key =
     (if length key \<noteq> 16 \<and> length key \<noteq> 24 \<and> length key \<noteq> 32
      then Panic (KeySizeError (length key))
      else Ok (XORKeyStream (aes_Encrypt env key) 1 contents))"

text \<open>
  \<^verbatim>\<open>decryptMaterial\<close> (lines 106-159). \<^verbatim>\<open>resp.Plaintext[:32]\<close> panics on a plaintext
  shorter than 32 bytes (taking the capacity of the slice to be its length).
\<close>

definition encryption_context :: "enc_context \<Rightarrow> enc_context option" where
  "encryption_context context = (if length context > 0 then Some context else None)"

definition decryptMaterial :: "env \<Rightarrow> string \<Rightarrow> item \<Rightarrow> enc_context \<Rightarrow> string result" where
  "decryptMaterial env name material context =
     (case material ''key'' of
        None \<Rightarrow> Panic nil_dereference
      | Some b64key \<Rightarrow>
     (case base64_DecodeString b64key of
        Inl err \<Rightarrow> Panic err
      | Inr data \<Rightarrow>
     (case kms_Decrypt env data (encryption_context context) of
        Inl err \<Rightarrow>
          if Contains (err_Error err) ''InvalidCiphertextException'' then
            if length context < 1 then
              Err (ErrorString (name @ '': Could not decrypt hmac key with KMS. The credential may require that an encryption context be provided to decrypt it.''))
            else
              Err (ErrorString (name @ '': Could not decrypt hmac key with KMS. The encryption context provided may not match the one used when the credential was stored.''))
          else Err err
      | Inr Plaintext \<Rightarrow>
          if length Plaintext < 32 then Panic slice_out_of_range
          else
            (let key = take 32 Plaintext; hmacKey = drop 32 Plaintext in
             case material ''contents'' of
               None \<Rightarrow> Panic nil_dereference
             | Some b64contents \<Rightarrow>
            (case base64_DecodeString b64contents of
               Inl err \<Rightarrow> Err err
             | Inr contents \<Rightarrow>
            (case checkMAC env contents (material ''hmac'') hmacKey of
               Panic err \<Rightarrow> Panic err
             | Err err \<Rightarrow> Err err
             | Ok False \<Rightarrow>
                 Err (ErrorString (''Computed HMAC on '' @ name @ '' does not match stored HMAC''))
             | Ok True \<Rightarrow>
                 (case cryptAES env contents key of
                    Panic err \<Rightarrow> Panic err
                  | Err err \<Rightarrow> Err err
                  | Ok plainText \<Rightarrow> Ok (string_of_bytes plainText))))))))"

text \<open>\<^verbatim>\<open>GetHighestVersion\<close> (lines 161-196).\<close>

definition GetHighestVersion :: "string \<Rightarrow> string \<Rightarrow> world \<Rightarrow> int result \<times> world" where
  "GetHighestVersion name table w =
     (case ddb_Query table name 1 True False (Some [''version'']) w of
        (Inl err, w') \<Rightarrow> (Err err, w')
      | (Inr Items, w') \<Rightarrow>
          (case Items of
             [] \<Rightarrow> (Ok 0, w')
           | i # _ \<Rightarrow>
               (case i ''version'' of
                  None \<Rightarrow> (Panic nil_dereference, w')
                | Some version \<Rightarrow>
                    (case Atoi version of
                       Inl err \<Rightarrow> (Panic err, w')
                     | Inr ver \<Rightarrow> (Ok ver, w')))))"

text \<open>\<^verbatim>\<open>generateDataKey\<close> (lines 198-223): the response is the pair of \<^verbatim>\<open>Plaintext\<close> and
  \<^verbatim>\<open>CiphertextBlob\<close>.\<close>

definition generateDataKey :: "env \<Rightarrow> string \<Rightarrow> enc_context \<Rightarrow> (bytes \<times> bytes) result" where
  "generateDataKey env kmsKey context =
     (case kms_GenerateDataKey env kmsKey 64 (encryption_context context) of
        Inl err \<Rightarrow> Err (ErrorString (''Could not generate key using KMS key '' @ kmsKey))
      | Inr resp \<Rightarrow> Ok resp)"

text \<open>\<^verbatim>\<open>putItem\<close> (lines 225-252).\<close>

definition putItem ::
    "string \<Rightarrow> string \<Rightarrow> bytes \<Rightarrow> bytes \<Rightarrow> bytes \<Rightarrow> string \<Rightarrow> world \<Rightarrow> error option \<times> world" where
  "putItem name version key contents hmac table w =
     (let b64key = base64_EncodeToString key;
          b64contents = base64_EncodeToString contents;
          hexHmac = hex_EncodeToString hmac
      in ddb_PutItem table
           [''name'' \<mapsto> name, ''version'' \<mapsto> version, ''key'' \<mapsto> b64key,
            ''contents'' \<mapsto> b64contents, ''hmac'' \<mapsto> hexHmac]
           True w)"







text \<open>\<^verbatim>\<open>PutSecret\<close> (lines 359-393).\<close>

definition version_conflict :: "string \<Rightarrow> int \<Rightarrow> error" where
  "version_conflict name latestVersion =
     ErrorString (name @ '' version '' @ Sprint_d latestVersion @
       '' is already in the credential store. Use the -v flag to specify a new version'')"

definition PutSecret ::
    "env \<Rightarrow> string \<Rightarrow> string \<Rightarrow> string \<Rightarrow> string \<Rightarrow> string \<Rightarrow> enc_context \<Rightarrow> world
      \<Rightarrow> unit result \<times> world" where
  "PutSecret env name secret version kmsKey table context w =
     (case generateDataKey env kmsKey context of
        Err err \<Rightarrow> (Err err, w)
      | Panic err \<Rightarrow> (Panic err, w)
      | Ok (Plaintext, CiphertextBlob) \<Rightarrow>
          if length Plaintext < 32 then (Panic slice_out_of_range, w)
          else
            (let dataKey = take 32 Plaintext;
                 hmacKey = drop 32 Plaintext;
                 wrappedKey = CiphertextBlob
             in case cryptAES env (bytes_of_string secret) dataKey of
                  Panic err \<Rightarrow> (Panic err, w)
                | Err err \<Rightarrow> (Err err, w)
                | Ok cipherText \<Rightarrow>
                    (let hmac = doHmac env cipherText hmacKey in
                     case putItem name version wrappedKey cipherText hmac table w of
                       (None, w') \<Rightarrow> (Ok (), w')
                     | (Some err, w') \<Rightarrow>
                         if Contains (err_Error err) ''ConditionalCheckFailedException'' then
                           (case GetHighestVersion name table w' of
                              (Err err', w'') \<Rightarrow> (Err err', w'')
                            | (Panic err', w'') \<Rightarrow> (Panic err', w'')
                            | (Ok latestVersion, w'') \<Rightarrow>
                                (Err (version_conflict name latestVersion), w''))
                         else (Err err, w'))))"

text \<open>\<^verbatim>\<open>GetSecret\<close> (lines 395-409).\<close>

definition GetSecret ::
    "env \<Rightarrow> string \<Rightarrow> string \<Rightarrow> string \<Rightarrow> enc_context \<Rightarrow> world \<Rightarrow> string result \<times> world" where
  "GetSecret env name version table context w =
     (case getMaterial name version table w of
        (Err err, w') \<Rightarrow> (Err err, w')
      | (Panic err, w') \<Rightarrow> (Panic err, w')
      | (Ok material, w') \<Rightarrow> (decryptMaterial env name material context, w'))"

subsection \<open>Auxiliary definitions for the proofs\<close>

text \<open>The 24-bit value the base64 encoder packs three bytes into.\<close>

definition pack3 :: "byte \<Rightarrow> byte \<Rightarrow> byte \<Rightarrow> 64 word" where
  "pack3 a b c = push_bit 16 (ucast a) OR push_bit 8 (ucast b) OR ucast c"

text \<open>The entry a newest-first query of limit one finds in a table.\<close>

definition latest :: "string \<Rightarrow> table \<Rightarrow> ((string \<times> string) \<times> item) option" where
  "latest name tb =
     (case rev (sort_key (\<lambda>e. snd (fst e)) (filter (\<lambda>e. fst (fst e) = name) tb)) of
        [] \<Rightarrow> None
      | e # _ \<Rightarrow> Some e)"

text \<open>The item \<^verbatim>\<open>PutSecret\<close> hands to \<^verbatim>\<open>putItem\<close>, given the data key KMS answered with.\<close>

definition sealed :: "env \<Rightarrow> string \<Rightarrow> string \<Rightarrow> string \<Rightarrow> bytes \<Rightarrow> bytes \<Rightarrow> item" where
  "sealed env name version secret Plaintext CiphertextBlob =
     (let cipherText = XORKeyStream (aes_Encrypt env (take 32 Plaintext)) 1 (bytes_of_string secret)
      in [''name'' \<mapsto> name, ''version'' \<mapsto> version,
          ''key'' \<mapsto> base64_EncodeToString CiphertextBlob,
          ''contents'' \<mapsto> base64_EncodeToString cipherText,
          ''hmac'' \<mapsto> hex_EncodeToString (hmac_sha256 env (drop 32 Plaintext) cipherText)])"

subsection \<open>A small instance, to run the model on concrete inputs\<close>

text \<open>
  Stand-ins for the parameters: a tag made of two lengths, a block function that adds
  the key length to the counter and repeats the sum in every byte, and a key service that always mints the same 64-byte
  key, wraps it as the blob 1, 2, 3 and unwraps that blob only without a context. The
  store has one table and serves every call.
\<close>

definition example_env :: env where
  "example_env =
     \<lparr>hmac_sha256 = (\<lambda>key message. [of_nat (length key), of_nat (length message)]),
      aes_Encrypt = (\<lambda>key block.
         (block + of_nat (length key)) * 0x01010101010101010101010101010101),
      kms_GenerateDataKey = (\<lambda>keyId n ctx. Inr (replicate n 7, [1, 2, 3])),
      kms_Decrypt = (\<lambda>blob ctx.
         if blob = [1, 2, 3] \<and> ctx = None then Inr (replicate 64 7)
         else Inl (AwsError ''InvalidCiphertextException'' []))\<rparr>"

definition example_store :: "table \<Rightarrow> world" where
  "example_store tb = \<lparr>tables = [''credential-store'' \<mapsto> tb], outages = [], stdout = []\<rparr>"

section \<open>Properties of the library functions\<close>

subsection \<open>Strings and bytes\<close>

lemma char_of_byte_of_char [simp]: "char_of_byte (byte_of_char c) = c"
  by (simp add: char_of_byte_def byte_of_char_def unat_of_nat)

lemma string_of_bytes_of_string [simp]: "string_of_bytes (bytes_of_string s) = s"
  by (simp add: string_of_bytes_def bytes_of_string_def map_idI)

subsection \<open>Hexadecimal\<close>

lemma all_below_iff: "(\<forall>n<k. P n) \<longleftrightarrow> list_all P [0..<k]"
  by (auto simp: list_all_iff)

lemma fromHex_table_nat: "\<forall>n<16. fromHexChar (hextable ! n) = Some (of_nat n)"
  unfolding all_below_iff by code_simp

lemma fromHex_table: "n < 16 \<Longrightarrow> fromHexChar (hextable ! unat (n::byte)) = Some n"
  using fromHex_table_nat [rule_format, of "unat n"] by (simp add: word_less_nat_alt)

lemma mask_consts: "(0x3F :: 64 word) = mask 6" "(0x0f :: byte) = mask 4"
  by (simp_all add: mask_eq_exp_minus_1)

lemma nibble_bounds: "drop_bit 4 (v::byte) < 16" "v AND 0x0f < 16"
proof -
  have "unat (drop_bit 4 v) = drop_bit 4 (unat v)"
    by (rule unat_drop_bit_eq)
  also have "\<dots> = unat v div 2 ^ 4"
    by (rule drop_bit_eq_div)
  finally have "unat (drop_bit 4 v) = unat v div 2 ^ 4" .
  moreover have "unat v < 256"
    using unsigned_less [of v, where 'a = nat] by simp
  ultimately show "drop_bit 4 v < 16"
    by (simp add: word_less_nat_alt)
  have "v AND mask 4 < 2 ^ 4"
    by (rule and_mask_less') simp
  then show "v AND 0x0f < 16"
    by (simp add: mask_consts)
qed

lemma nibbles_join: "push_bit 4 (drop_bit 4 v) OR (v AND 0x0f) = (v::byte)"
  unfolding mask_consts by (rule bit_word_eqI) (auto simp add: bit_simps)

lemma hex_roundtrip: "hex_DecodeString (hex_EncodeToString src) = Inr src"
  by (induction src)
    (simp_all add: hex_EncodeToString_def fromHex_table nibble_bounds nibbles_join)

subsection \<open>Base64\<close>

lemma decodeMap_table_nat:
  "\<forall>n<64. decodeMap (encodeStd ! n) = Some (of_nat n)
            \<and> encodeStd ! n \<noteq> CHR 0x0A \<and> encodeStd ! n \<noteq> CHR 0x0D"
  unfolding all_below_iff by code_simp

lemma decodeMap_pad: "decodeMap (CHR ''='') = None"
  by code_simp

lemma sextet_index: "unat (drop_bit sh (val :: 64 word) AND 0x3F) < 64"
  unfolding mask_consts
  using and_mask_less' [of 6 "drop_bit sh val"] by (simp add: word_less_nat_alt)

lemma decodeMap_sextet: "decodeMap (sextet val sh) = Some (ucast (drop_bit sh val AND 0x3F))"
  using decodeMap_table_nat [rule_format, OF sextet_index [of sh val]]
  by (simp add: sextet_def)

lemma sextet_kept: "sextet val sh \<noteq> CHR 0x0A" "sextet val sh \<noteq> CHR 0x0D"
  using decodeMap_table_nat [rule_format, OF sextet_index [of sh val]]
  by (simp_all add: sextet_def)

lemma byte_high_bit: "8 \<le> m \<Longrightarrow> \<not> bit (b::byte) m"
  by (auto dest: bit_imp_le_length)

lemma and_3F: "(x :: 64 word) AND 0x3F = take_bit 6 x"
  by (simp add: mask_consts take_bit_eq_mask)

lemma pack3_bytes:
  "ucast (drop_bit 16 (pack3 a b c)) = a"
  "ucast (drop_bit 8 (pack3 a b c)) = b"
  "ucast (pack3 a b c) = c"
  unfolding pack3_def
  by (rule bit_word_eqI; simp add: bit_simps byte_high_bit)+

lemma byte0_of_sextets:
  fixes v :: "64 word"
  shows "(ucast (drop_bit 16 (assemble (ucast (drop_bit 18 v AND 0x3F))
            (ucast (drop_bit 12 v AND 0x3F)) d2 d3)) :: byte) = ucast (drop_bit 16 v)"
  unfolding assemble_def and_3F
  apply (rule bit_word_eqI)
  apply (simp add: bit_simps byte_high_bit)
  apply (case_tac "n < 2")
   apply auto
  done

lemma byte1_of_sextets:
  fixes v :: "64 word"
  shows "(ucast (drop_bit 8 (assemble d0 (ucast (drop_bit 12 v AND 0x3F))
            (ucast (drop_bit 6 v AND 0x3F)) d3)) :: byte) = ucast (drop_bit 8 v)"
  unfolding assemble_def and_3F
  apply (rule bit_word_eqI)
  apply (simp add: bit_simps byte_high_bit)
  apply (case_tac "n < 4")
   apply auto
  done

lemma byte2_of_sextets:
  fixes v :: "64 word"
  shows "(ucast (assemble d0 d1 (ucast (drop_bit 6 v AND 0x3F))
            (ucast (drop_bit 0 v AND 0x3F))) :: byte) = ucast v"
  unfolding assemble_def and_3F
  apply (rule bit_word_eqI)
  apply (simp add: bit_simps byte_high_bit)
  apply (case_tac "n < 6")
   apply auto
  done

lemma pack3_one: "push_bit 16 (ucast a) = pack3 a 0 0"
  by (simp add: pack3_def)

lemma pack3_two: "push_bit 16 (ucast a) OR push_bit 8 (ucast b) = pack3 a b 0"
  by (simp add: pack3_def)

lemma decodeQuanta_encode: "decodeQuanta (base64_EncodeToString src) = Inr src"
proof (induction src rule: base64_EncodeToString.induct)
  case 1
  show ?case by simp
next
  case (2 a)
  show ?case
    unfolding base64_EncodeToString.simps Let_def pack3_one
    by (simp add: Let_def decodeMap_sextet decodeMap_pad byte0_of_sextets pack3_bytes)
next
  case (3 a b)
  show ?case
    unfolding base64_EncodeToString.simps Let_def pack3_two
    by (simp add: Let_def decodeMap_sextet decodeMap_pad byte0_of_sextets byte1_of_sextets
        pack3_bytes)
next
  case (4 a b c src)
  have low: "(ucast (assemble d0 d1 (ucast (drop_bit 6 (pack3 a b c) AND 0x3F))
                (ucast (pack3 a b c AND 0x3F))) :: byte) = ucast (pack3 a b c)" for d0 d1
    using byte2_of_sextets [of d0 d1 "pack3 a b c"] by simp
  from 4 show ?case
    unfolding base64_EncodeToString.simps Let_def pack3_def [symmetric]
    by (simp add: Let_def decodeMap_sextet byte0_of_sextets byte1_of_sextets low pack3_bytes)
qed

lemma encode_no_newlines:
  "filter (\<lambda>c. c \<noteq> CHR 0x0A \<and> c \<noteq> CHR 0x0D) (base64_EncodeToString src)
     = base64_EncodeToString src"
  by (induction src rule: base64_EncodeToString.induct) (simp_all add: sextet_kept Let_def)

lemma base64_roundtrip: "base64_DecodeString (base64_EncodeToString src) = Inr src"
  by (simp add: base64_DecodeString_def encode_no_newlines decodeQuanta_encode)

subsection \<open>Counter mode\<close>

lemma length_block_bytes [simp]: "length (block_bytes x) = 16"
  by (simp add: block_bytes_def)

lemma length_keystream [simp]: "length (keystream block ctr n) = n"
proof (induction block ctr n rule: keystream.induct)
  case (1 block ctr n)
  show ?case
  proof (cases "n = 0")
    case True
    then show ?thesis by (simp add: keystream.simps)
  next
    case False
    with 1 show ?thesis
      by (subst keystream.simps) (simp add: min_def)
  qed
qed

lemma xor_twice: "length src = length ks \<Longrightarrow> map2 (XOR) (map2 (XOR) src ks) ks = (src :: bytes)"
  by (induction src ks rule: list_induct2) (simp_all add: xor.assoc)

lemma XORKeyStream_involution: "XORKeyStream block iv (XORKeyStream block iv src) = src"
  by (simp add: XORKeyStream_def xor_twice)

section \<open>Properties of the store\<close>

lemma serve_idle: "outages w = [] \<Longrightarrow> serve w = (None, w)"
  by (simp add: serve_def)

lemma serve_keeps: "serve w = (out, w') \<Longrightarrow> tables w' = tables w \<and> stdout w' = stdout w"
  by (auto simp: serve_def split: list.splits)

lemma sort_key_Nil_iff: "sort_key f xs = [] \<longleftrightarrow> xs = []"
  by (metis length_0_conv length_sort)

lemma latest_None_iff: "latest name tb = None \<longleftrightarrow> (\<forall>e\<in>set tb. fst (fst e) \<noteq> name)"
proof -
  let ?part = "sort_key (\<lambda>e. snd (fst e)) (filter (\<lambda>e. fst (fst e) = name) tb)"
  have "latest name tb = None \<longleftrightarrow> rev ?part = []"
    by (cases "rev ?part") (simp_all add: latest_def)
  then have "latest name tb = None \<longleftrightarrow> filter (\<lambda>e. fst (fst e) = name) tb = []"
    by (simp add: sort_key_Nil_iff)
  then show ?thesis
    by (simp add: filter_empty_conv)
qed

lemma sorted_map_last:
  "sorted (map f ys) \<Longrightarrow> y \<in> set ys \<Longrightarrow> f y \<le> f (last ys)"
  by (induction ys) (auto split: if_splits)

lemma latest_Some:
  assumes "latest name tb = Some e"
  shows "e \<in> set tb" "fst (fst e) = name"
    "\<forall>e'\<in>set tb. fst (fst e') = name \<longrightarrow> snd (fst e') \<le> snd (fst e)"
proof -
  let ?part = "sort_key (\<lambda>e. snd (fst e)) (filter (\<lambda>e. fst (fst e) = name) tb)"
  from assms have ne: "?part \<noteq> []" and e: "e = last ?part"
    by (auto simp: latest_def hd_rev split: list.splits)
  from ne e have "e \<in> set ?part"
    using last_in_set by blast
  then show "e \<in> set tb" "fst (fst e) = name"
    by simp_all
  have "sorted (map (\<lambda>e. snd (fst e)) ?part)"
    by (rule sorted_sort_key)
  then show "\<forall>e'\<in>set tb. fst (fst e') = name \<longrightarrow> snd (fst e') \<le> snd (fst e)"
    unfolding e using sorted_map_last [of "\<lambda>e. snd (fst e)" ?part] by simp
qed

lemma latest_of_maximal:
  assumes "e \<in> set tb" "fst (fst e) = name"
    and "\<forall>e'\<in>set tb. fst (fst e') = name \<longrightarrow> snd (fst e') \<le> snd (fst e)"
  shows "\<exists>e0. latest name tb = Some e0 \<and> fst e0 = fst e"
proof -
  from assms(1,2) have "latest name tb \<noteq> None"
    by (auto simp: latest_None_iff)
  then obtain e0 where e0: "latest name tb = Some e0"
    by auto
  from latest_Some [OF e0] assms have "snd (fst e0) = snd (fst e)" "fst (fst e0) = fst (fst e)"
    by (auto intro: antisym)
  with e0 show ?thesis
    by (auto simp: prod_eq_iff)
qed

lemma ddb_Query_latest:
  assumes "serve w = (None, w')" "tables w table = Some tb"
  shows "ddb_Query table name 1 consistent False projection w =
           (Inr (case latest name tb of None \<Rightarrow> [] | Some e \<Rightarrow> [project projection (item_at e)]), w')"
  using assms serve_keeps [OF assms(1)]
  by (simp add: ddb_Query_def latest_def Let_def take_Suc split: list.splits)

lemma ddb_GetItem_served:
  assumes "serve w = (None, w')" "tables w table = Some tb"
  shows "ddb_GetItem table name version w =
           (Inr (map_option (\<lambda>attrs. item_at ((name, version), attrs)) (map_of tb (name, version))), w')"
  using assms serve_keeps [OF assms(1)]
  by (simp add: ddb_GetItem_def split: option.splits)


lemma item_at_keys [simp]:
  "item_at e ''name'' = Some (fst (fst e))" "item_at e ''version'' = Some (snd (fst e))"
  by (simp_all add: item_at_def)









section \<open>Properties of the driver\<close>

lemma decryptMaterial_rejected:
  assumes "material ''key'' = Some b64key" "base64_DecodeString b64key = Inr data"
    and "kms_Decrypt env data (encryption_context context) = Inl err"
    and "Contains (err_Error err) ''InvalidCiphertextException''"
  shows "decryptMaterial env name material context =
     Err (ErrorString (name @
       (if length context < 1
        then '': Could not decrypt hmac key with KMS. The credential may require that an encryption context be provided to decrypt it.''
        else '': Could not decrypt hmac key with KMS. The encryption context provided may not match the one used when the credential was stored.'')))"
  using assms by (simp add: decryptMaterial_def)

lemma GetSecret_material:
  "getMaterial name version table w = (Ok material, w')
    \<Longrightarrow> GetSecret env name version table context w = (decryptMaterial env name material context, w')"
  by (simp add: GetSecret_def)


lemma decryptMaterial_undecodable:
  "material ''key'' = Some b64key \<Longrightarrow> base64_DecodeString b64key = Inl err
     \<Longrightarrow> decryptMaterial env name material context = Panic err"
  "material ''key'' = Some b64key \<Longrightarrow> base64_DecodeString b64key = Inr data
     \<Longrightarrow> kms_Decrypt env data (encryption_context context) = Inr Plaintext
     \<Longrightarrow> 32 \<le> length Plaintext
     \<Longrightarrow> material ''contents'' = Some b64contents
     \<Longrightarrow> base64_DecodeString b64contents = Inl err
     \<Longrightarrow> decryptMaterial env name material context = Err err"
  "material ''key'' = Some b64key \<Longrightarrow> base64_DecodeString b64key = Inr data
     \<Longrightarrow> kms_Decrypt env data (encryption_context context) = Inr Plaintext
     \<Longrightarrow> 32 \<le> length Plaintext
     \<Longrightarrow> material ''contents'' = Some b64contents
     \<Longrightarrow> base64_DecodeString b64contents = Inr contents
     \<Longrightarrow> material ''hmac'' = Some hexHmac \<Longrightarrow> hex_DecodeString hexHmac = Inl err
     \<Longrightarrow> decryptMaterial env name material context = Panic err"
  by (simp_all add: decryptMaterial_def checkMAC_def)

lemma decryptMaterial_Ok_decodes:
  assumes "decryptMaterial env name material context = Ok plainText"
  shows "\<exists>b64key data b64contents contents hexHmac mac.
           material ''key'' = Some b64key \<and> base64_DecodeString b64key = Inr data
         \<and> material ''contents'' = Some b64contents \<and> base64_DecodeString b64contents = Inr contents
         \<and> material ''hmac'' = Some hexHmac \<and> hex_DecodeString hexHmac = Inr mac"
  using assms
  by (auto simp: decryptMaterial_def checkMAC_def Let_def
      split: option.splits sum.splits if_splits result.splits bool.splits)

lemma ddb_PutItem_NoneD:
  assumes "ddb_PutItem table Item IfAbsent w = (None, w')"
  shows "\<exists>w1 tb name version.
           serve w = (None, w1) \<and> tables w table = Some tb
         \<and> Item ''name'' = Some name \<and> Item ''version'' = Some version
         \<and> name \<noteq> [] \<and> version \<noteq> []
         \<and> (IfAbsent \<longrightarrow> map_of tb (name, version) = None)
         \<and> w' = w1\<lparr>tables := (tables w1)(table \<mapsto> AList.update (name, version) Item tb)\<rparr>"
proof -
  obtain out w1 where s: "serve w = (out, w1)"
    by (cases "serve w")
  from assms s have "out = None"
    by (auto simp: ddb_PutItem_def split: option.splits)
  with assms s serve_keeps [OF s] show ?thesis
    by (auto simp: ddb_PutItem_def split: option.splits if_splits)
qed

lemma cryptAES_32: "length key = 32 \<Longrightarrow> cryptAES env contents key = Ok (XORKeyStream (aes_Encrypt env key) 1 contents)"
  by (simp add: cryptAES_def)

lemma PutSecret_OkD:
  assumes "PutSecret env name secret version kmsKey table context w = (Ok (), w')"
  shows "\<exists>Plaintext CiphertextBlob w1 tb.
           kms_GenerateDataKey env kmsKey 64 (encryption_context context) = Inr (Plaintext, CiphertextBlob)
         \<and> 32 \<le> length Plaintext
         \<and> serve w = (None, w1) \<and> tables w table = Some tb
         \<and> name \<noteq> [] \<and> version \<noteq> [] \<and> map_of tb (name, version) = None
         \<and> w' = w1\<lparr>tables := (tables w1)(table \<mapsto>
                  AList.update (name, version)
                    (sealed env name version secret Plaintext CiphertextBlob) tb)\<rparr>"
proof -
  from assms obtain Plaintext CiphertextBlob
    where gen: "kms_GenerateDataKey env kmsKey 64 (encryption_context context) = Inr (Plaintext, CiphertextBlob)"
    by (cases "kms_GenerateDataKey env kmsKey 64 (encryption_context context)")
       (auto simp: PutSecret_def generateDataKey_def)
  from assms gen have len: "32 \<le> length Plaintext"
    by (auto simp: PutSecret_def generateDataKey_def split: if_splits)
  let ?item = "sealed env name version secret Plaintext CiphertextBlob"
  from assms gen len have "ddb_PutItem table ?item True w = (None, w')"
    by (auto simp: PutSecret_def generateDataKey_def cryptAES_32 putItem_def sealed_def doHmac_def Let_def
        split: prod.splits option.splits if_splits result.splits)
  from ddb_PutItem_NoneD [OF this] gen len show ?thesis
    by (auto simp: sealed_def Let_def)
qed

lemma decryptMaterial_sealed:
  assumes "material ''key'' = Some (base64_EncodeToString CiphertextBlob)"
    and "material ''contents'' = Some (base64_EncodeToString cipherText)"
    and "material ''hmac'' = Some (hex_EncodeToString (hmac_sha256 env (drop 32 Plaintext) cipherText))"
    and "cipherText = XORKeyStream (aes_Encrypt env (take 32 Plaintext)) 1 (bytes_of_string secret)"
    and "kms_Decrypt env CiphertextBlob (encryption_context context) = Inr Plaintext"
    and "32 \<le> length Plaintext"
  shows "decryptMaterial env name material context = Ok secret"
  using assms
  by (simp add: decryptMaterial_def base64_roundtrip hex_roundtrip checkMAC_def doHmac_def
      cryptAES_32 XORKeyStream_involution)

lemma getMaterial_exact:
  assumes "serve w = (None, w')" "tables w table = Some tb" "version \<noteq> []"
  shows "getMaterial name version table w =
     (case map_of tb (name, version) of
        None \<Rightarrow> (Err (not_found name), w')
      | Some attrs \<Rightarrow> (Ok (item_at ((name, version), attrs)), w'))"
  using assms by (simp add: getMaterial_def ddb_GetItem_served split: option.splits)

lemma ddb_PutItem_fresh:
  assumes "serve w = (None, w1)" "tables w table = Some tb"
    and "Item ''name'' = Some name" "Item ''version'' = Some version"
    and "name \<noteq> []" "version \<noteq> []" "map_of tb (name, version) = None"
  shows "ddb_PutItem table Item IfAbsent w =
           (None, w1\<lparr>tables := (tables w1)(table \<mapsto> AList.update (name, version) Item tb)\<rparr>)"
  using assms serve_keeps [OF assms(1)] by (simp add: ddb_PutItem_def)

lemma ddb_PutItem_conflict:
  assumes "serve w = (None, w1)" "tables w table = Some tb"
    and "Item ''name'' = Some name" "Item ''version'' = Some version"
    and "name \<noteq> []" "version \<noteq> []" "map_of tb (name, version) \<noteq> None"
  shows "ddb_PutItem table Item True w = (Some ConditionalCheckFailedException, w1)"
  using assms serve_keeps [OF assms(1)] by (auto simp add: ddb_PutItem_def)

lemma PutSecret_steps:
  assumes "kms_GenerateDataKey env kmsKey 64 (encryption_context context) = Inr (Plaintext, CiphertextBlob)"
    and "32 \<le> length Plaintext"
  shows "PutSecret env name secret version kmsKey table context w =
     (case ddb_PutItem table (sealed env name version secret Plaintext CiphertextBlob) True w of
        (None, w') \<Rightarrow> (Ok (), w')
      | (Some err, w') \<Rightarrow>
          if Contains (err_Error err) ''ConditionalCheckFailedException'' then
            (case GetHighestVersion name table w' of
               (Err err', w'') \<Rightarrow> (Err err', w'')
             | (Panic err', w'') \<Rightarrow> (Panic err', w'')
             | (Ok latestVersion, w'') \<Rightarrow> (Err (version_conflict name latestVersion), w''))
          else (Err err, w'))"
  using assms
  by (simp add: PutSecret_def generateDataKey_def cryptAES_32 putItem_def sealed_def doHmac_def Let_def)

lemma PutSecret_fresh:
  assumes "kms_GenerateDataKey env kmsKey 64 (encryption_context context) = Inr (Plaintext, CiphertextBlob)"
    and "32 \<le> length Plaintext"
    and "serve w = (None, w1)" "tables w table = Some tb"
    and "name \<noteq> []" "version \<noteq> []" "map_of tb (name, version) = None"
  shows "PutSecret env name secret version kmsKey table context w =
     (Ok (), w1\<lparr>tables := (tables w1)(table \<mapsto>
                AList.update (name, version)
                  (sealed env name version secret Plaintext CiphertextBlob) tb)\<rparr>)"
proof -
  have "ddb_PutItem table (sealed env name version secret Plaintext CiphertextBlob) True w =
     (None, w1\<lparr>tables := (tables w1)(table \<mapsto> AList.update (name, version)
                  (sealed env name version secret Plaintext CiphertextBlob) tb)\<rparr>)"
    by (rule ddb_PutItem_fresh [OF assms(3,4) _ _ assms(5,6,7)]) (simp_all add: sealed_def Let_def)
  then show ?thesis
    by (simp add: PutSecret_steps [OF assms(1,2)])
qed

lemma GetHighestVersion_served:
  assumes "serve w = (None, w')" "tables w table = Some tb"
  shows "GetHighestVersion name table w =
     (case latest name tb of
        None \<Rightarrow> (Ok 0, w')
      | Some e \<Rightarrow>
          (case Atoi (snd (fst e)) of
             Inl err \<Rightarrow> (Panic err, w')
           | Inr ver \<Rightarrow> (Ok ver, w')))"
  unfolding GetHighestVersion_def ddb_Query_latest [OF assms]
  by (simp add: project_def item_at_def split: option.splits sum.splits)

lemma getMaterial_latest:
  assumes "serve w = (None, w')" "tables w table = Some tb"
  shows "getMaterial name [] table w =
     (case latest name tb of
        None \<Rightarrow> (Err (not_found name), w')
      | Some e \<Rightarrow> (Ok (item_at e), w'))"
  unfolding getMaterial_def ddb_Query_latest [OF assms]
  by (simp add: project_def split: option.splits)

lemma set_update_subset: "set (AList.update k v al) \<subseteq> insert (k, v) (set al)"
  by (induction al) auto

lemma update_mem: "(k, v) \<in> set (AList.update k v al)"
  by (induction al) auto

lemma Atoi_1: "Atoi ''1'' = Inr 1"
  by (simp add: Atoi_def byte_of_char_def)

lemma Contains_conflict:
  "Contains (err_Error ConditionalCheckFailedException) ''ConditionalCheckFailedException''"
  by (simp add: ConditionalCheckFailedException_def)





section \<open>Evaluations on the small instance\<close>

lemma example_generate:
  "kms_GenerateDataKey example_env kmsKey 64 (encryption_context [])
     = Inr (replicate 64 7, [1, 2, 3])"
  by (simp add: example_env_def)

lemma example_decrypt:
  "kms_Decrypt example_env [1, 2, 3] (encryption_context []) = Inr (replicate 64 7)"
  by (simp add: example_env_def encryption_context_def)

lemma example_reject_context:
  "kms_Decrypt example_env [1, 2, 3] (encryption_context [(''env'', ''prod'')])
     = Inl (AwsError ''InvalidCiphertextException'' [])"
  by (simp add: example_env_def encryption_context_def)

lemma example_reject_blob:
  "kms_Decrypt example_env [9, 9, 9] (encryption_context [])
     = Inl (AwsError ''InvalidCiphertextException'' [])"
  by (simp add: example_env_def encryption_context_def)

lemma example_served: "serve (example_store tb) = (None, example_store tb)"
  by (simp add: serve_def example_store_def)

lemma example_table: "tables (example_store tb) ''credential-store'' = Some tb"
  by (simp add: example_store_def)

lemma example_idle: "outages (example_store tb) = []"
  by (simp add: example_store_def)

lemma decode_AQID: "base64_DecodeString ''AQID'' = Inr [1, 2, 3]"
  by code_simp

lemma decode_CQkJ: "base64_DecodeString ''CQkJ'' = Inr [9, 9, 9]"
  by code_simp

lemma decode_aGk: "base64_DecodeString ''aGk='' = Inr [104, 105]"
  by code_simp

lemma decode_bad: "base64_DecodeString ''!!!!'' = Inl CorruptInputError"
  by code_simp

lemma decode_hex_0000: "hex_DecodeString ''0000'' = Inr [0, 0]"
  by (simp add: fromHexChar_def byte_of_char_def)

lemma decode_hex_zz: "hex_DecodeString ''zz'' = Inl (InvalidByteError (CHR ''z''))"
  by (simp add: fromHexChar_def byte_of_char_def)

lemma Atoi_abc: "Atoi ''abc'' = Inl (NumError ''abc'' ''invalid syntax'')"
  by (simp add: Atoi_def byte_of_char_def)


lemma Contains_invalid:
  "Contains (err_Error (AwsError ''InvalidCiphertextException'' [])) ''InvalidCiphertextException''"
  by simp

lemma example_len: "32 \<le> length (replicate 64 (7 :: byte))"
  by simp

lemma Sprint_d_1: "Sprint_d 1 = ''1''"
  by code_simp

lemma latest_single: "latest name [((name, version), attrs)] = Some ((name, version), attrs)"
  by (simp add: latest_def)



section \<open>The claims\<close>

text \<open>
  C1. Round trip. When \<^verbatim>\<open>PutSecret\<close> has stored a secret under a name, a version and a
  context, and KMS unwraps the wrapped key it minted under that context,
  \<^verbatim>\<open>GetSecret\<close> with the same name, version and context returns exactly the secret. The
  stored record holds the wrapped key, the secret encrypted in counter mode under the
  first 32 bytes of the 64-byte data key, and the HMAC of that ciphertext under the
  remaining bytes.
\<close>

theorem put_get_roundtrip:
  assumes put: "PutSecret env name secret version kmsKey table context w = (Ok (), w')"
    and gen: "kms_GenerateDataKey env kmsKey 64 (encryption_context context)
                = Inr (Plaintext, CiphertextBlob)"
    and dec: "kms_Decrypt env CiphertextBlob (encryption_context context) = Inr Plaintext"
    and served: "fst (serve w') = None"
  shows "fst (GetSecret env name version table context w') = Ok secret
       \<and> (\<exists>material. fst (getMaterial name version table w') = Ok material
            \<and> material ''key'' = Some (base64_EncodeToString CiphertextBlob)
            \<and> material ''contents'' = Some (base64_EncodeToString
                  (XORKeyStream (aes_Encrypt env (take 32 Plaintext)) 1 (bytes_of_string secret)))
            \<and> material ''hmac'' = Some (hex_EncodeToString
                  (hmac_sha256 env (drop 32 Plaintext)
                    (XORKeyStream (aes_Encrypt env (take 32 Plaintext)) 1
                      (bytes_of_string secret)))))"
proof -
  from PutSecret_OkD [OF put] gen obtain w1 tb where
    len: "32 \<le> length Plaintext" and v: "version \<noteq> []"
    and w': "w' = w1\<lparr>tables := (tables w1)(table \<mapsto>
                  AList.update (name, version)
                    (sealed env name version secret Plaintext CiphertextBlob) tb)\<rparr>"
    by auto
  let ?item = "sealed env name version secret Plaintext CiphertextBlob"
  obtain w2 where s: "serve w' = (None, w2)"
    using served by (cases "serve w'") auto
  have tb': "tables w' table = Some (AList.update (name, version) ?item tb)"
    by (simp add: w')
  have gm: "getMaterial name version table w' = (Ok (item_at ((name, version), ?item)), w2)"
    by (simp add: getMaterial_exact [OF s tb' v] update_conv')
  have fields:
    "item_at ((name, version), ?item) ''key'' = Some (base64_EncodeToString CiphertextBlob)"
    "item_at ((name, version), ?item) ''contents'' = Some (base64_EncodeToString
        (XORKeyStream (aes_Encrypt env (take 32 Plaintext)) 1 (bytes_of_string secret)))"
    "item_at ((name, version), ?item) ''hmac'' = Some (hex_EncodeToString
        (hmac_sha256 env (drop 32 Plaintext)
          (XORKeyStream (aes_Encrypt env (take 32 Plaintext)) 1 (bytes_of_string secret))))"
    by (simp_all add: item_at_def sealed_def Let_def)
  have "decryptMaterial env name (item_at ((name, version), ?item)) context = Ok secret"
    by (rule decryptMaterial_sealed [OF fields refl dec len])
  with gm fields show ?thesis
    by (simp add: GetSecret_material)
qed

theorem put_get_roundtrip_witness:
  "fst (GetSecret example_env ''db-pass'' ''1'' ''credential-store'' []
         (snd (PutSecret example_env ''db-pass'' ''s3cr3t'' ''1'' ''alias/credstash''
                 ''credential-store'' [] (example_store []))))
     = Ok ''s3cr3t''"
proof -
  have "PutSecret example_env ''db-pass'' ''s3cr3t'' ''1'' ''alias/credstash''
               ''credential-store'' [] (example_store [])
        = (Ok (), (example_store [])\<lparr>tables := (tables (example_store []))(''credential-store'' \<mapsto>
             AList.update (''db-pass'', ''1'')
               (sealed example_env ''db-pass'' ''1'' ''s3cr3t'' (replicate 64 7) [1, 2, 3]) [])\<rparr>)"
    by (rule PutSecret_fresh [OF example_generate _ example_served example_table]) simp_all
  then have "fst (PutSecret example_env ''db-pass'' ''s3cr3t'' ''1'' ''alias/credstash''
               ''credential-store'' [] (example_store [])) = Ok ()"
    and "outages (snd (PutSecret example_env ''db-pass'' ''s3cr3t'' ''1'' ''alias/credstash''
               ''credential-store'' [] (example_store []))) = []"
    by (simp_all add: example_idle)
  then have put: "PutSecret example_env ''db-pass'' ''s3cr3t'' ''1'' ''alias/credstash''
               ''credential-store'' [] (example_store [])
        = (Ok (), snd (PutSecret example_env ''db-pass'' ''s3cr3t'' ''1'' ''alias/credstash''
               ''credential-store'' [] (example_store [])))"
    and served: "fst (serve (snd (PutSecret example_env ''db-pass'' ''s3cr3t'' ''1''
               ''alias/credstash'' ''credential-store'' [] (example_store [])))) = None"
    by (simp_all add: prod_eq_iff serve_idle)
  from put_get_roundtrip [OF put example_generate example_decrypt served]
  show ?thesis
    by simp
qed



text \<open>
  C3 (as the code has it). When the hexadecimal tag does not decode, \<^verbatim>\<open>checkMAC\<close>
  panics with the decoding error. It returns \<open>false\<close> exactly when the tag decodes and
  differs from the HMAC of the message: a caller sees a decoding failure as a panic,
  not as a mismatch.
\<close>

theorem checkMAC_undecodable_tag_panics:
  "(\<forall>err. hex_DecodeString tag = Inl err \<longrightarrow>
      checkMAC env message (Some tag) key = Panic err)
   \<and> (checkMAC env message (Some tag) key = Ok False \<longleftrightarrow>
        (\<exists>mac. hex_DecodeString tag = Inr mac \<and> mac \<noteq> hmac_sha256 env key message))"
proof (cases "hex_DecodeString tag")
  case (Inl err)
  then show ?thesis
    by (simp add: checkMAC_def)
next
  case (Inr mac)
  then show ?thesis
    by (simp add: checkMAC_def doHmac_def)
qed

theorem checkMAC_undecodable_tag_panics_witness:
  "hex_DecodeString ''abc'' = Inl ErrLength
   \<and> checkMAC example_env [1, 2] (Some ''abc'') [3] = Panic ErrLength
   \<and> checkMAC example_env [1, 2] (Some ''0000'') [3] = Ok False"
proof -
  have d: "hex_DecodeString ''abc'' = Inl ErrLength"
    by (simp add: fromHexChar_def byte_of_char_def)
  have m: "[0, 0] \<noteq> hmac_sha256 example_env [3] [1, 2]"
    by (simp add: example_env_def)
  note t = checkMAC_undecodable_tag_panics [of _ example_env "[1, 2]" "[3]"]
  from t [of "''abc''", THEN conjunct1, rule_format, OF d]
    t [of "''0000''", THEN conjunct2] decode_hex_0000 m d
  show ?thesis
    by simp
qed

text \<open>
  C3 as stated, that \<^verbatim>\<open>checkMAC\<close> returns \<open>false\<close> on a tag that does not decode,
  fails on the tag \<^verbatim>\<open>zz\<close>.
\<close>

theorem checkMAC_undecodable_tag_not_false:
  "hex_DecodeString ''zz'' = Inl (InvalidByteError (CHR ''z''))
   \<and> checkMAC example_env [] (Some ''zz'') [] \<noteq> Ok False
   \<and> checkMAC example_env [] (Some ''zz'') [] = Panic (InvalidByteError (CHR ''z''))"
  by (simp add: checkMAC_def fromHexChar_def byte_of_char_def)

text \<open>
  C4. When KMS rejects the wrapped key of the record with an error whose text contains
  \<^verbatim>\<open>InvalidCiphertextException\<close>, \<^verbatim>\<open>GetSecret\<close> fails with a decryption error naming the
  secret: with an empty context the message says the credential may require an
  encryption context, with a non-empty context it says the context provided may not
  match the one used when the credential was stored.
\<close>

theorem invalid_ciphertext_messages:
  assumes "getMaterial name version table w = (Ok material, w')"
    and "material ''key'' = Some b64key" "base64_DecodeString b64key = Inr data"
    and "kms_Decrypt env data (encryption_context context) = Inl err"
    and "Contains (err_Error err) ''InvalidCiphertextException''"
  shows "GetSecret env name version table context w =
     (Err (ErrorString (name @
       (if length context < 1
        then '': Could not decrypt hmac key with KMS. The credential may require that an encryption context be provided to decrypt it.''
        else '': Could not decrypt hmac key with KMS. The encryption context provided may not match the one used when the credential was stored.''))), w')"
  using assms by (simp add: GetSecret_material decryptMaterial_rejected)

theorem invalid_ciphertext_messages_witness:
  "GetSecret example_env ''db-pass'' ''1'' ''credential-store'' []
     (example_store [((''db-pass'', ''1''), [''key'' \<mapsto> ''CQkJ''])])
   = (Err (ErrorString ''db-pass: Could not decrypt hmac key with KMS. The credential may require that an encryption context be provided to decrypt it.''),
      example_store [((''db-pass'', ''1''), [''key'' \<mapsto> ''CQkJ''])])
   \<and> GetSecret example_env ''db-pass'' ''1'' ''credential-store'' [(''env'', ''prod'')]
     (example_store [((''db-pass'', ''1''), [''key'' \<mapsto> ''AQID''])])
   = (Err (ErrorString ''db-pass: Could not decrypt hmac key with KMS. The encryption context provided may not match the one used when the credential was stored.''),
      example_store [((''db-pass'', ''1''), [''key'' \<mapsto> ''AQID''])])"
proof -
  have get: "getMaterial ''db-pass'' ''1'' ''credential-store''
               (example_store [((''db-pass'', ''1''), attrs)])
             = (Ok (item_at ((''db-pass'', ''1''), attrs)),
                example_store [((''db-pass'', ''1''), attrs)])" for attrs
    by (simp add: getMaterial_exact [OF example_served example_table])
  have k1: "item_at ((''db-pass'', ''1''), [''key'' \<mapsto> ''CQkJ'']) ''key'' = Some ''CQkJ''"
    and k2: "item_at ((''db-pass'', ''1''), [''key'' \<mapsto> ''AQID'']) ''key'' = Some ''AQID''"
    by (simp_all add: item_at_def)
  have "GetSecret example_env ''db-pass'' ''1'' ''credential-store'' []
     (example_store [((''db-pass'', ''1''), [''key'' \<mapsto> ''CQkJ''])])
   = (Err (ErrorString ''db-pass: Could not decrypt hmac key with KMS. The credential may require that an encryption context be provided to decrypt it.''),
      example_store [((''db-pass'', ''1''), [''key'' \<mapsto> ''CQkJ''])])"
    using invalid_ciphertext_messages [OF get [of "[''key'' \<mapsto> ''CQkJ'']"] k1 decode_CQkJ example_reject_blob Contains_invalid]
    by simp
  moreover have "GetSecret example_env ''db-pass'' ''1'' ''credential-store'' [(''env'', ''prod'')]
     (example_store [((''db-pass'', ''1''), [''key'' \<mapsto> ''AQID''])])
   = (Err (ErrorString ''db-pass: Could not decrypt hmac key with KMS. The encryption context provided may not match the one used when the credential was stored.''),
      example_store [((''db-pass'', ''1''), [''key'' \<mapsto> ''AQID''])])"
    using invalid_ciphertext_messages [OF get [of "[''key'' \<mapsto> ''AQID'']"] k2 decode_AQID example_reject_context Contains_invalid]
    by simp
  ultimately show ?thesis
    by (rule conjI)
qed

text \<open>
  C5 (as the code has it). Let KMS have minted a data key of at least 32 bytes. When
  the store serves every call, the key (name, version) is already stored, and the
  greatest version string stored under the name (in the order of the range key,
  which compares bytes) parses as a decimal integer \<open>n\<close>, \<^verbatim>\<open>PutSecret\<close> fails with the
  error \<^verbatim>\<open><name> version <n> is already in the credential store. Use the -v flag to
  specify a new version\<close> and changes nothing. When \<^verbatim>\<open>putItem\<close> fails with an error whose
  text does not contain \<^verbatim>\<open>ConditionalCheckFailedException\<close>, \<^verbatim>\<open>PutSecret\<close> returns that
  error unchanged.
\<close>

theorem put_conflict_reports_latest_version:
  assumes gen: "kms_GenerateDataKey env kmsKey 64 (encryption_context context)
                  = Inr (Plaintext, CiphertextBlob)"
    and len: "32 \<le> length Plaintext"
  shows "(\<forall>tb e n. outages w = [] \<longrightarrow> tables w table = Some tb \<longrightarrow>
            name \<noteq> [] \<longrightarrow> version \<noteq> [] \<longrightarrow>
            map_of tb (name, version) \<noteq> None \<longrightarrow>
            e \<in> set tb \<longrightarrow> fst (fst e) = name \<longrightarrow>
            (\<forall>e'\<in>set tb. fst (fst e') = name \<longrightarrow> snd (fst e') \<le> snd (fst e)) \<longrightarrow>
            Atoi (snd (fst e)) = Inr n \<longrightarrow>
            PutSecret env name secret version kmsKey table context w
              = (Err (version_conflict name n), w))
       \<and> (\<forall>err w'.
            putItem name version CiphertextBlob
              (XORKeyStream (aes_Encrypt env (take 32 Plaintext)) 1 (bytes_of_string secret))
              (hmac_sha256 env (drop 32 Plaintext)
                (XORKeyStream (aes_Encrypt env (take 32 Plaintext)) 1 (bytes_of_string secret)))
              table w = (Some err, w') \<longrightarrow>
            \<not> Contains (err_Error err) ''ConditionalCheckFailedException'' \<longrightarrow>
            PutSecret env name secret version kmsKey table context w = (Err err, w'))"
proof (intro conjI allI impI)
  fix tb e n
  assume idle: "outages w = []" and tb: "tables w table = Some tb"
    and nv: "name \<noteq> []" "version \<noteq> []" "map_of tb (name, version) \<noteq> None"
    and e: "e \<in> set tb" "fst (fst e) = name"
      "\<forall>e'\<in>set tb. fst (fst e') = name \<longrightarrow> snd (fst e') \<le> snd (fst e)"
    and n: "Atoi (snd (fst e)) = Inr n"
  note s = serve_idle [OF idle]
  have put: "ddb_PutItem table (sealed env name version secret Plaintext CiphertextBlob) True w
          = (Some ConditionalCheckFailedException, w)"
    by (rule ddb_PutItem_conflict [OF s tb _ _ nv]) (simp_all add: sealed_def Let_def)
  from latest_of_maximal [OF e] obtain e0 where "latest name tb = Some e0" "fst e0 = fst e"
    by blast
  with put n show "PutSecret env name secret version kmsKey table context w
                = (Err (version_conflict name n), w)"
    by (simp add: PutSecret_steps [OF gen len] Contains_conflict
        GetHighestVersion_served [OF s tb])
next
  fix err w'
  assume "putItem name version CiphertextBlob
              (XORKeyStream (aes_Encrypt env (take 32 Plaintext)) 1 (bytes_of_string secret))
              (hmac_sha256 env (drop 32 Plaintext)
                (XORKeyStream (aes_Encrypt env (take 32 Plaintext)) 1 (bytes_of_string secret)))
              table w = (Some err, w')"
    "\<not> Contains (err_Error err) ''ConditionalCheckFailedException''"
  then show "PutSecret env name secret version kmsKey table context w = (Err err, w')"
    by (simp add: PutSecret_steps [OF gen len] putItem_def sealed_def Let_def)
qed

theorem put_conflict_reports_latest_version_witness:
  "PutSecret example_env ''db-pass'' ''new'' ''1'' ''alias/credstash'' ''credential-store''
     [] (example_store [((''db-pass'', ''1''), Map.empty)])
   = (Err (ErrorString ''db-pass version 1 is already in the credential store. Use the -v flag to specify a new version''),
      example_store [((''db-pass'', ''1''), Map.empty)])
   \<and> PutSecret example_env ''db-pass'' ''new'' ''1'' ''alias/credstash'' ''credential-store''
     []
     \<lparr>tables = [''credential-store'' \<mapsto> []],
      outages = [Some (AwsError ''InternalServerError'' ''try again'')], stdout = []\<rparr>
   = (Err (AwsError ''InternalServerError'' ''try again''),
      \<lparr>tables = [''credential-store'' \<mapsto> []], outages = [], stdout = []\<rparr>)"
proof -
  note t = put_conflict_reports_latest_version [OF example_generate example_len]
  have "PutSecret example_env ''db-pass'' ''new'' ''1'' ''alias/credstash'' ''credential-store''
     [] (example_store [((''db-pass'', ''1''), Map.empty)])
   = (Err (version_conflict ''db-pass'' 1), example_store [((''db-pass'', ''1''), Map.empty)])"
    by (rule t [THEN conjunct1, rule_format, OF example_idle example_table,
          where e = "((''db-pass'', ''1''), Map.empty)"])
       (simp_all add: Atoi_1)
  moreover have "PutSecret example_env ''db-pass'' ''new'' ''1'' ''alias/credstash''
     ''credential-store'' []
     \<lparr>tables = [''credential-store'' \<mapsto> []],
      outages = [Some (AwsError ''InternalServerError'' ''try again'')], stdout = []\<rparr>
   = (Err (AwsError ''InternalServerError'' ''try again''),
      \<lparr>tables = [''credential-store'' \<mapsto> []], outages = [], stdout = []\<rparr>)"
    by (rule t [THEN conjunct2, rule_format])
       (simp_all add: putItem_def ddb_PutItem_def serve_def)
  ultimately show ?thesis
    by (simp add: version_conflict_def Sprint_d_1)
qed

text \<open>
  C5 as stated, that every put whose key already exists fails with an error
  naming the highest version, fails on a store that holds the version \<^verbatim>\<open>abc\<close> of a secret:
  putting that version again panics in \<^verbatim>\<open>GetHighestVersion\<close>.
\<close>

theorem put_conflict_unparsable_version_panics:
  "PutSecret example_env ''db-pass'' ''new'' ''abc'' ''alias/credstash'' ''credential-store''
     [] (example_store [((''db-pass'', ''abc''), Map.empty)])
   = (Panic (NumError ''abc'' ''invalid syntax''),
      example_store [((''db-pass'', ''abc''), Map.empty)])"
proof -
  have "ddb_PutItem ''credential-store''
          (sealed example_env ''db-pass'' ''abc'' ''new'' (replicate 64 7) [1, 2, 3]) True
          (example_store [((''db-pass'', ''abc''), Map.empty)])
        = (Some ConditionalCheckFailedException,
           example_store [((''db-pass'', ''abc''), Map.empty)])"
    by (rule ddb_PutItem_conflict [OF example_served example_table])
       (simp_all add: sealed_def Let_def)
  then show ?thesis
    by (simp add: PutSecret_steps [OF example_generate example_len] Contains_conflict
        GetHighestVersion_served [OF example_served example_table] latest_single Atoi_abc)
qed

text \<open>
  C6. When the store serves the query and holds no item under a name,
  \<^verbatim>\<open>GetHighestVersion\<close> returns 0 and no error; once a \<^verbatim>\<open>PutSecret\<close> at version \<^verbatim>\<open>1\<close> has
  succeeded on that store, \<^verbatim>\<open>GetHighestVersion\<close> returns 1.
\<close>

theorem highest_version_default_and_first:
  assumes "serve w = (None, w1)" "tables w table = Some tb"
    and none: "\<forall>e\<in>set tb. fst (fst e) \<noteq> name"
  shows "GetHighestVersion name table w = (Ok 0, w1)
       \<and> (\<forall>env secret kmsKey context w' w''.
            PutSecret env name secret ''1'' kmsKey table context w = (Ok (), w') \<longrightarrow>
            serve w' = (None, w'') \<longrightarrow>
            GetHighestVersion name table w' = (Ok 1, w''))"
proof (intro conjI allI impI)
  from none have "latest name tb = None"
    by (simp add: latest_None_iff)
  then show "GetHighestVersion name table w = (Ok 0, w1)"
    by (simp add: GetHighestVersion_served [OF assms(1,2)])
next
  fix env secret kmsKey ctx w' w''
  assume put: "PutSecret env name secret ''1'' kmsKey table ctx w = (Ok (), w')"
    and s: "serve w' = (None, w'')"
  from PutSecret_OkD [OF put] assms(2) obtain w0 item where
    w': "w' = w0\<lparr>tables := (tables w0)(table \<mapsto> AList.update (name, ''1'') item tb)\<rparr>"
    by auto
  let ?tb = "AList.update (name, ''1'') item tb"
  have tb': "tables w' table = Some ?tb"
    by (simp add: w')
  have "\<forall>e'\<in>set ?tb. fst (fst e') = name \<longrightarrow> snd (fst e') \<le> snd (fst ((name, ''1''), item))"
    using set_update_subset [of "(name, ''1'')" item tb] none by auto
  from latest_of_maximal [OF update_mem _ this]
  obtain e0 where "latest name ?tb = Some e0" "fst e0 = (name, ''1'')"
    by auto
  then show "GetHighestVersion name table w' = (Ok 1, w'')"
    by (simp add: GetHighestVersion_served [OF s tb'] Atoi_1)
qed

theorem highest_version_default_and_first_witness:
  "GetHighestVersion ''unknown-name'' ''credential-store'' (example_store [])
     = (Ok 0, example_store [])
   \<and> fst (GetHighestVersion ''db-pass'' ''credential-store''
        (snd (PutSecret example_env ''db-pass'' ''s3cr3t'' ''1'' ''alias/credstash''
                ''credential-store'' [] (example_store [])))) = Ok 1"
proof -
  let ?put = "PutSecret example_env ''db-pass'' ''s3cr3t'' ''1'' ''alias/credstash''
                ''credential-store'' [] (example_store [])"
  have "?put = (Ok (), (example_store [])\<lparr>tables := (tables (example_store []))(''credential-store'' \<mapsto>
             AList.update (''db-pass'', ''1'')
               (sealed example_env ''db-pass'' ''1'' ''s3cr3t'' (replicate 64 7) [1, 2, 3]) [])\<rparr>)"
    by (rule PutSecret_fresh [OF example_generate _ example_served example_table]) simp_all
  then have put: "?put = (Ok (), snd ?put)" and idle: "outages (snd ?put) = []"
    by (simp_all add: example_idle)
  have none: "\<forall>e\<in>set []. fst (fst e) \<noteq> name" for name :: string
    by simp
  note t = highest_version_default_and_first [OF example_served example_table none]
  from t [THEN conjunct1, of "''unknown-name''"]
    t [THEN conjunct2, rule_format, OF put serve_idle [OF idle]]
  show ?thesis
    by simp
qed




text \<open>
  C8. When the store serves the call: with an empty version, \<^verbatim>\<open>getMaterial\<close> answers with
  the item of the name whose version string is the greatest in the order of the range
  key (the first item of a consistent, descending query of limit one), and with a
  non-empty version it answers with the item stored under exactly that key. In both
  cases, when there is no such item, \<^verbatim>\<open>getMaterial\<close> and \<^verbatim>\<open>GetSecret\<close> fail with the error
  \<^verbatim>\<open>Item {'name': '<name>'} couldn't be found.\<close>
\<close>

theorem get_latest_or_exact:
  assumes "serve w = (None, w')" "tables w table = Some tb"
  shows "(version = [] \<longrightarrow>
            (if \<forall>e\<in>set tb. fst (fst e) \<noteq> name
             then getMaterial name version table w = (Err (not_found name), w')
                  \<and> GetSecret env name version table context w = (Err (not_found name), w')
             else \<exists>e\<in>set tb. fst (fst e) = name
                    \<and> (\<forall>e'\<in>set tb. fst (fst e') = name \<longrightarrow> snd (fst e') \<le> snd (fst e))
                    \<and> getMaterial name version table w = (Ok (item_at e), w')))
       \<and> (version \<noteq> [] \<longrightarrow>
            (case map_of tb (name, version) of
               None \<Rightarrow> getMaterial name version table w = (Err (not_found name), w')
                       \<and> GetSecret env name version table context w = (Err (not_found name), w')
             | Some attrs \<Rightarrow>
                 getMaterial name version table w = (Ok (item_at ((name, version), attrs)), w')))
       \<and> getMaterial name [] table w =
           (case ddb_Query table name 1 True False None w of
              (Inl err, w') \<Rightarrow> (Err err, w')
            | (Inr Items, w') \<Rightarrow>
                (case Items of
                   [] \<Rightarrow> (Err (not_found name), w')
                 | material # _ \<Rightarrow> (Ok material, w')))"
proof (intro conjI impI)
  assume v: "version = []"
  show "if \<forall>e\<in>set tb. fst (fst e) \<noteq> name
        then getMaterial name version table w = (Err (not_found name), w')
             \<and> GetSecret env name version table context w = (Err (not_found name), w')
        else \<exists>e\<in>set tb. fst (fst e) = name
               \<and> (\<forall>e'\<in>set tb. fst (fst e') = name \<longrightarrow> snd (fst e') \<le> snd (fst e))
               \<and> getMaterial name version table w = (Ok (item_at e), w')"
  proof (cases "latest name tb")
    case None
    then show ?thesis
      using latest_None_iff [of name tb]
      by (simp add: v getMaterial_latest [OF assms] GetSecret_def)
  next
    case (Some e)
    from latest_Some [OF Some] Some show ?thesis
      using latest_None_iff [of name tb]
      by (auto simp: v getMaterial_latest [OF assms])
  qed
next
  assume v: "version \<noteq> []"
  show "case map_of tb (name, version) of
          None \<Rightarrow> getMaterial name version table w = (Err (not_found name), w')
                  \<and> GetSecret env name version table context w = (Err (not_found name), w')
        | Some attrs \<Rightarrow>
            getMaterial name version table w = (Ok (item_at ((name, version), attrs)), w')"
    by (simp add: getMaterial_exact [OF assms v] GetSecret_def split: option.splits)
next
  show "getMaterial name [] table w =
           (case ddb_Query table name 1 True False None w of
              (Inl err, w') \<Rightarrow> (Err err, w')
            | (Inr Items, w') \<Rightarrow>
                (case Items of
                   [] \<Rightarrow> (Err (not_found name), w')
                 | material # _ \<Rightarrow> (Ok material, w')))"
    by (simp add: getMaterial_def)
qed

theorem get_latest_or_exact_witness:
  "getMaterial ''foo'' [] ''credential-store''
     (example_store [((''foo'', ''2''), Map.empty), ((''foo'', ''1''), Map.empty)])
   = (Ok (item_at ((''foo'', ''2''), Map.empty)),
      example_store [((''foo'', ''2''), Map.empty), ((''foo'', ''1''), Map.empty)])
   \<and> getMaterial ''foo'' ''1'' ''credential-store''
     (example_store [((''foo'', ''2''), Map.empty), ((''foo'', ''1''), Map.empty)])
   = (Ok (item_at ((''foo'', ''1''), Map.empty)),
      example_store [((''foo'', ''2''), Map.empty), ((''foo'', ''1''), Map.empty)])
   \<and> GetSecret example_env ''foo'' ''3'' ''credential-store'' []
     (example_store [((''foo'', ''2''), Map.empty), ((''foo'', ''1''), Map.empty)])
   = (Err (not_found ''foo''),
      example_store [((''foo'', ''2''), Map.empty), ((''foo'', ''1''), Map.empty)])
   \<and> GetSecret example_env ''bar'' [] ''credential-store'' []
     (example_store [((''foo'', ''2''), Map.empty), ((''foo'', ''1''), Map.empty)])
   = (Err (not_found ''bar''),
      example_store [((''foo'', ''2''), Map.empty), ((''foo'', ''1''), Map.empty)])"
proof -
  let ?tb = "[((''foo'', ''2''), Map.empty), ((''foo'', ''1''), Map.empty)]
               :: table"
  note t = get_latest_or_exact [OF example_served example_table, of _ ?tb]
  have order: "\<not> (''2'' :: string) \<le> ''1''"
    by simp
  have "getMaterial ''foo'' [] ''credential-store'' (example_store ?tb)
          = (Ok (item_at ((''foo'', ''2''), Map.empty)), example_store ?tb)"
    using t [of "[]" "''foo''", THEN conjunct1] order
    by auto
  moreover have "getMaterial ''foo'' ''1'' ''credential-store'' (example_store ?tb)
          = (Ok (item_at ((''foo'', ''1''), Map.empty)), example_store ?tb)"
    using t [of "''1''" "''foo''", THEN conjunct2, THEN conjunct1]
    by simp
  moreover have "GetSecret example_env ''foo'' ''3'' ''credential-store'' [] (example_store ?tb)
          = (Err (not_found ''foo''), example_store ?tb)"
    using t [of "''3''" "''foo''" example_env "[]", THEN conjunct2, THEN conjunct1]
    by simp
  moreover have "GetSecret example_env ''bar'' [] ''credential-store'' [] (example_store ?tb)
          = (Err (not_found ''bar''), example_store ?tb)"
    using t [of "[]" "''bar''" example_env "[]", THEN conjunct1]
    by simp
  ultimately show ?thesis
    by (intro conjI)
qed

text \<open>
  C9 (as the code has it). For a record whose three fields are present: when the wrapped
  key does not decode, \<^verbatim>\<open>GetSecret\<close> panics with the decoding error; when the key
  unwraps and the contents do not decode, it returns the decoding error as an ordinary
  error value; when key and contents decode and the tag does not, it panics with the
  decoding error. In none of these cases does it return plaintext.
\<close>

theorem undecodable_record_outcomes:
  assumes "getMaterial name version table w = (Ok material, w')"
    and "material ''key'' = Some b64key"
    and "material ''contents'' = Some b64contents"
    and "material ''hmac'' = Some hexHmac"
  shows "(\<forall>err. base64_DecodeString b64key = Inl err \<longrightarrow>
            GetSecret env name version table context w = (Panic err, w'))
       \<and> (\<forall>data Plaintext err.
            base64_DecodeString b64key = Inr data \<longrightarrow>
            kms_Decrypt env data (encryption_context context) = Inr Plaintext \<longrightarrow>
            32 \<le> length Plaintext \<longrightarrow>
            base64_DecodeString b64contents = Inl err \<longrightarrow>
            GetSecret env name version table context w = (Err err, w'))
       \<and> (\<forall>data Plaintext contents err.
            base64_DecodeString b64key = Inr data \<longrightarrow>
            kms_Decrypt env data (encryption_context context) = Inr Plaintext \<longrightarrow>
            32 \<le> length Plaintext \<longrightarrow>
            base64_DecodeString b64contents = Inr contents \<longrightarrow>
            hex_DecodeString hexHmac = Inl err \<longrightarrow>
            GetSecret env name version table context w = (Panic err, w'))
       \<and> ((\<exists>err. base64_DecodeString b64key = Inl err)
            \<or> (\<exists>err. base64_DecodeString b64contents = Inl err)
            \<or> (\<exists>err. hex_DecodeString hexHmac = Inl err) \<longrightarrow>
            (\<forall>plainText. fst (GetSecret env name version table context w) \<noteq> Ok plainText))"
proof (intro conjI allI impI)
  fix err
  assume "base64_DecodeString b64key = Inl err"
  then show "GetSecret env name version table context w = (Panic err, w')"
    using assms by (simp add: GetSecret_material decryptMaterial_undecodable(1))
next
  fix data Plaintext err
  assume "base64_DecodeString b64key = Inr data"
    "kms_Decrypt env data (encryption_context context) = Inr Plaintext"
    "32 \<le> length Plaintext"
    "base64_DecodeString b64contents = Inl err"
  then show "GetSecret env name version table context w = (Err err, w')"
    using assms by (simp add: GetSecret_material decryptMaterial_undecodable(2))
next
  fix data Plaintext contents err
  assume "base64_DecodeString b64key = Inr data"
    "kms_Decrypt env data (encryption_context context) = Inr Plaintext"
    "32 \<le> length Plaintext"
    "base64_DecodeString b64contents = Inr contents"
    "hex_DecodeString hexHmac = Inl err"
  then show "GetSecret env name version table context w = (Panic err, w')"
    using assms by (simp add: GetSecret_material decryptMaterial_undecodable(3))
next
  fix plainText
  assume bad: "(\<exists>err. base64_DecodeString b64key = Inl err)
            \<or> (\<exists>err. base64_DecodeString b64contents = Inl err)
            \<or> (\<exists>err. hex_DecodeString hexHmac = Inl err)"
  show "fst (GetSecret env name version table context w) \<noteq> Ok plainText"
  proof
    assume "fst (GetSecret env name version table context w) = Ok plainText"
    with assms(1) have "decryptMaterial env name material context = Ok plainText"
      by (simp add: GetSecret_material)
    from decryptMaterial_Ok_decodes [OF this] assms(2-4) bad show False
      by auto
  qed
qed

theorem undecodable_record_outcomes_witness:
  "GetSecret example_env ''db-pass'' ''1'' ''credential-store'' []
     (example_store [((''db-pass'', ''1''),
        [''key'' \<mapsto> ''!!!!'', ''contents'' \<mapsto> ''aGk='', ''hmac'' \<mapsto> ''0000''])])
   = (Panic CorruptInputError,
      example_store [((''db-pass'', ''1''),
        [''key'' \<mapsto> ''!!!!'', ''contents'' \<mapsto> ''aGk='', ''hmac'' \<mapsto> ''0000''])])
   \<and> GetSecret example_env ''db-pass'' ''1'' ''credential-store'' []
     (example_store [((''db-pass'', ''1''),
        [''key'' \<mapsto> ''AQID'', ''contents'' \<mapsto> ''!!!!'', ''hmac'' \<mapsto> ''0000''])])
   = (Err CorruptInputError,
      example_store [((''db-pass'', ''1''),
        [''key'' \<mapsto> ''AQID'', ''contents'' \<mapsto> ''!!!!'', ''hmac'' \<mapsto> ''0000''])])
   \<and> GetSecret example_env ''db-pass'' ''1'' ''credential-store'' []
     (example_store [((''db-pass'', ''1''),
        [''key'' \<mapsto> ''AQID'', ''contents'' \<mapsto> ''aGk='', ''hmac'' \<mapsto> ''zz''])])
   = (Panic (InvalidByteError (CHR ''z'')),
      example_store [((''db-pass'', ''1''),
        [''key'' \<mapsto> ''AQID'', ''contents'' \<mapsto> ''aGk='', ''hmac'' \<mapsto> ''zz''])])"
proof -
  have get: "getMaterial ''db-pass'' ''1'' ''credential-store''
               (example_store [((''db-pass'', ''1''), attrs)])
             = (Ok (item_at ((''db-pass'', ''1''), attrs)),
                example_store [((''db-pass'', ''1''), attrs)])" for attrs
    by (simp add: getMaterial_exact [OF example_served example_table])
  have fields:
    "item_at ((''db-pass'', ''1''), [''key'' \<mapsto> k, ''contents'' \<mapsto> c, ''hmac'' \<mapsto> h]) ''key''
       = Some k"
    "item_at ((''db-pass'', ''1''), [''key'' \<mapsto> k, ''contents'' \<mapsto> c, ''hmac'' \<mapsto> h]) ''contents''
       = Some c"
    "item_at ((''db-pass'', ''1''), [''key'' \<mapsto> k, ''contents'' \<mapsto> c, ''hmac'' \<mapsto> h]) ''hmac''
       = Some h" for k c h
    by (simp_all add: item_at_def)
  have len: "32 \<le> length (replicate 64 (7 :: byte))"
    by simp
  have "GetSecret example_env ''db-pass'' ''1'' ''credential-store'' []
     (example_store [((''db-pass'', ''1''),
        [''key'' \<mapsto> ''!!!!'', ''contents'' \<mapsto> ''aGk='', ''hmac'' \<mapsto> ''0000''])])
   = (Panic CorruptInputError,
      example_store [((''db-pass'', ''1''),
        [''key'' \<mapsto> ''!!!!'', ''contents'' \<mapsto> ''aGk='', ''hmac'' \<mapsto> ''0000''])])"
    by (rule undecodable_record_outcomes [OF get fields, THEN conjunct1, rule_format,
          OF decode_bad])
  moreover have "GetSecret example_env ''db-pass'' ''1'' ''credential-store'' []
     (example_store [((''db-pass'', ''1''),
        [''key'' \<mapsto> ''AQID'', ''contents'' \<mapsto> ''!!!!'', ''hmac'' \<mapsto> ''0000''])])
   = (Err CorruptInputError,
      example_store [((''db-pass'', ''1''),
        [''key'' \<mapsto> ''AQID'', ''contents'' \<mapsto> ''!!!!'', ''hmac'' \<mapsto> ''0000''])])"
    by (rule undecodable_record_outcomes [OF get fields, THEN conjunct2, THEN conjunct1,
          rule_format, OF decode_AQID example_decrypt len decode_bad])
  moreover have "GetSecret example_env ''db-pass'' ''1'' ''credential-store'' []
     (example_store [((''db-pass'', ''1''),
        [''key'' \<mapsto> ''AQID'', ''contents'' \<mapsto> ''aGk='', ''hmac'' \<mapsto> ''zz''])])
   = (Panic (InvalidByteError (CHR ''z'')),
      example_store [((''db-pass'', ''1''),
        [''key'' \<mapsto> ''AQID'', ''contents'' \<mapsto> ''aGk='', ''hmac'' \<mapsto> ''zz''])])"
    by (rule undecodable_record_outcomes [OF get fields, THEN conjunct2, THEN conjunct2,
          THEN conjunct1, rule_format,
          OF decode_AQID example_decrypt len decode_aGk decode_hex_zz])
  ultimately show ?thesis
    by (intro conjI)
qed

text \<open>
  C9 as stated, that a record with an undecodable field makes the read return an
  error, fails on a record whose wrapped key is \<^verbatim>\<open>!!!!\<close>: \<^verbatim>\<open>GetSecret\<close> panics, and nothing
  in the driver recovers the panic.
\<close>

theorem undecodable_key_panics:
  "fst (GetSecret example_env ''db-pass'' ''1'' ''credential-store'' []
     (example_store [((''db-pass'', ''1''),
        [''key'' \<mapsto> ''!!!!'', ''contents'' \<mapsto> ''aGk='', ''hmac'' \<mapsto> ''0000''])]))
   = Panic CorruptInputError"
  by (simp add: GetSecret_def getMaterial_exact [OF example_served example_table]
      decryptMaterial_def item_at_def decode_bad)



end
